theory Spec2Isabelle
  imports Main "HOL-Library.Word"
begin

unbundle bit_operations_syntax

section \<open>Values of the program\<close>

subsection \<open>float64\<close>

text \<open>
  A Go \<open>float64\<close> is kept as its IEEE-754 binary64 bit pattern: sign (bit 63), exponent
  (bits 62..52) and fraction (bits 51..0).  Assignment copies the pattern; the comparison
  operators \<open>==\<close> and \<open>!=\<close> follow IEEE-754: a NaN differs from everything, itself
  included, and the two zeros are equal.
\<close>

type_synonym float64 = "64 word"

definition f64_exponent_mask :: float64 where
  "f64_exponent_mask = 0x7FF0000000000000"

definition f64_fraction_mask :: float64 where
  "f64_fraction_mask = 0x000FFFFFFFFFFFFF"

definition f64_is_nan :: "float64 \<Rightarrow> bool" where
  "f64_is_nan x =
     ((x AND f64_exponent_mask) = f64_exponent_mask \<and> (x AND f64_fraction_mask) \<noteq> 0)"

definition f64_is_finite :: "float64 \<Rightarrow> bool" where
  "f64_is_finite x = ((x AND f64_exponent_mask) \<noteq> f64_exponent_mask)"

definition f64_is_zero :: "float64 \<Rightarrow> bool" where
  "f64_is_zero x = ((x AND 0x7FFFFFFFFFFFFFFF) = 0)"

definition f64_eq :: "float64 \<Rightarrow> float64 \<Rightarrow> bool" where
  "f64_eq a b =
     (\<not> f64_is_nan a \<and> \<not> f64_is_nan b \<and> (a = b \<or> (f64_is_zero a \<and> f64_is_zero b)))"

definition f64_ne :: "float64 \<Rightarrow> float64 \<Rightarrow> bool" where
  "f64_ne a b = (\<not> f64_eq a b)"

text \<open>The literals of \<open>main.go\<close>: \<open>1.0\<close>, \<open>0.0\<close> and \<open>-1.0\<close>.\<close>

definition f64_one :: float64 where
  "f64_one = 0x3FF0000000000000"

definition f64_zero :: float64 where
  "f64_zero = 0"

definition f64_minus_one :: float64 where
  "f64_minus_one = 0xBFF0000000000000"

subsection \<open>Decoded JSON (\<open>interface{}\<close>)\<close>

text \<open>
  What \<open>encoding/json\<close> puts into an \<open>interface{}\<close>: \<open>nil\<close>, \<open>bool\<close>, \<open>float64\<close>,
  \<open>string\<close>, \<open>[]interface{}\<close> and \<open>map[string]interface{}\<close>.
\<close>

datatype json =
    JNull
  | JBool bool
  | JNumber float64
  | JString string
  | JArray "json list"
  | JObject "(string \<times> json) list"

text \<open>
  \<open>json.Marshal\<close> refuses a NaN or an infinity (\<open>UnsupportedValueError\<close>); every
  other value of the types used here is encoded.
\<close>

fun json_encodable :: "json \<Rightarrow> bool" where
  "json_encodable JNull = True"
| "json_encodable (JBool b) = True"
| "json_encodable (JNumber x) = f64_is_finite x"
| "json_encodable (JString s) = True"
| "json_encodable (JArray vs) = (\<forall>v \<in> set vs. json_encodable v)"
| "json_encodable (JObject kvs) = (\<forall>kv \<in> set kvs. json_encodable (snd kv))"

subsection \<open>The structs of \<open>main.go\<close>\<close>

text \<open>\<open>type AudioQuery struct\<close> (lines 17-28).\<close>

record AudioQuery =
  AccentPhrases :: "json list"
  SpeedScale :: float64
  PitchScale :: float64
  IntonationScale :: float64
  VolumeScale :: float64
  PrePhonemeLength :: float64
  PostPhonemeLength :: float64
  OutputSamplingRate :: int
  OutputStereo :: bool
  Kana :: string

text \<open>
  \<open>type SpeakerStyle struct\<close> (lines 39-42).  Its fields \<open>Name\<close> and \<open>ID\<close> are
  written \<open>StyleName\<close> and \<open>StyleID\<close>, since \<open>Speaker\<close> has a field \<open>Name\<close> too.
\<close>

record SpeakerStyle =
  StyleName :: string
  StyleID :: int

text \<open>\<open>type Speaker struct\<close> (lines 31-36).\<close>

record Speaker =
  Name :: string
  SpeakerUUID :: string
  Styles :: "SpeakerStyle list"
  Version :: string

text \<open>\<open>type Client struct\<close> (lines 47-49).\<close>

record Client =
  BaseURL :: string

subsection \<open>Decimal rendering (\<open>%d\<close>, \<open>strconv.Itoa\<close>)\<close>

definition digits :: string where
  "digits = ''0123456789''"

fun nat_digits :: "nat \<Rightarrow> string" where
  "nat_digits n =
     (if n < 10 then [digits ! n]
      else nat_digits (n div 10) @ [digits ! (n mod 10)])"

declare nat_digits.simps [simp del]

definition Itoa :: "int \<Rightarrow> string" where
  "Itoa i = (if i < 0 then CHR ''-'' # nat_digits (nat (- i)) else nat_digits (nat i))"

text \<open>\<open>func NewClient(port int) *Client\<close> (lines 52-56).\<close>

definition NewClient :: "int \<Rightarrow> Client" where
  "NewClient port = \<lparr>BaseURL = ''http://localhost:'' @ Itoa port\<rparr>"

section \<open>The world outside the program\<close>

subsection \<open>HTTP\<close>

text \<open>
  A request as \<open>net/http\<close> sends it: the method, the URL without its query, the query
  parameters (\<open>req.URL.RawQuery\<close>), the content type and the body.  The only body this
  program sends is the JSON document of an \<open>AudioQuery\<close>, kept as the struct it encodes.
\<close>

record Request =
  req_method :: string
  req_url :: string
  req_query :: "(string \<times> string) list"
  req_content_type :: "string option"
  req_body :: "AudioQuery option"

text \<open>
  A response: the status code, the bytes of the body that can be read, and the error
  (if any) that reading the body ends with.
\<close>

record Response =
  StatusCode :: int
  Body :: string
  BodyErr :: "string option"

text \<open>
  Everything the program gets from outside.  Errors of the library calls are their
  texts (\<open>%v\<close>).
  \<^item> \<open>http_do\<close>: the transport (\<open>http.Get\<close>, \<open>http.Post\<close>, \<open>httpClient.Do\<close>): a
    connection error or the engine's response;
  \<^item> \<open>new_request_err\<close>: the error of \<open>http.NewRequest\<close> for a URL, if it has one;
  \<^item> \<open>decode_speakers\<close>, \<open>decode_audio_query\<close>:
    \<open>json.NewDecoder(resp.Body).Decode\<close> into \<open>[]Speaker\<close> and into \<open>AudioQuery\<close>;
  \<^item> \<open>read_file\<close>, \<open>write_file\<close>: \<open>os.ReadFile\<close> and \<open>os.WriteFile\<close>;
  \<^item> \<open>elapsed\<close>: what \<open>time.Since(startTime)\<close> returns, in nanoseconds.
\<close>

record env =
  http_do :: "Request \<Rightarrow> string + Response"
  new_request_err :: "string \<Rightarrow> string option"
  decode_speakers :: "Response \<Rightarrow> string + Speaker list"
  decode_audio_query :: "Response \<Rightarrow> string + AudioQuery"
  read_file :: "string \<Rightarrow> string + string"
  write_file :: "string \<Rightarrow> string \<Rightarrow> string option"
  elapsed :: int

subsection \<open>Errors and messages\<close>

text \<open>
  The program's errors are \<open>fmt.Errorf\<close> texts.  One constructor stands for each shape
  of text, with the values formatted into it; \<open>site\<close> says which operation made it.
  \<^item> \<open>ConnectionError\<close>: the request failed (lines 62, 91, 133, 163), with \<open>%v\<close>;
  \<^item> \<open>ProtocolError\<close>: the status code was not 200 (lines 67, 96, 139-143, 169-173),
    with the status code and, at the last two, the body text;
  \<^item> \<open>DecodeError\<close>: the JSON of the response did not decode (lines 72, 101, 148);
  \<^item> \<open>SpeakerNotFound\<close>: line 84, with the requested name;
  \<^item> \<open>RequestError\<close>: \<open>http.NewRequest\<close> failed (line 126);
  \<^item> \<open>EncodeError\<close>: \<open>json.Marshal\<close> failed (line 157); the text of its error, which names
    the value it refused, is not kept;
  \<^item> \<open>BodyReadError\<close>: reading the WAV data failed (line 178).
\<close>

datatype site = At_findSpeakerID | At_listSpeakers | At_createAudioQuery | At_synthesis

datatype error =
    ConnectionError site string
  | ProtocolError site int "string option"
  | DecodeError site string
  | SpeakerNotFound string
  | RequestError string
  | EncodeError
  | BodyReadError string

text \<open>
  What the program prints, one constructor for each print statement with the values
  formatted into it: line 78; lines 104, 106, 108, 111, 112; lines 235, 242, 250, 263,
  278, 279; \<open>flag.Usage\<close> (lines 202-209, with \<open>os.Args[0]\<close>); the error lines 218,
  231, 245 and 267; lines 238 and 274.
\<close>

datatype message =
    MsgUsingSpeaker string string int
  | MsgListHeader
  | MsgListSpeaker string
  | MsgListStyle string int
  | MsgListFooter
  | MsgListHint
  | MsgReading string
  | MsgCreatingQuery
  | MsgAdjusting
  | MsgSynthesizing
  | MsgDone int
  | MsgSaved string
  | MsgUsage string
  | MsgError error
  | MsgReadFailed string
  | MsgSaveFailed string

text \<open>What a run does to the world, in order.\<close>

datatype effect =
    Http Request
  | Stdout message
  | Stderr message
  | ReadFile string
  | WriteFile string string

section \<open>The API client\<close>

text \<open>\<open>http.Get(c.BaseURL + "/speakers")\<close> (lines 60 and 89).\<close>

definition speakers_request :: "Client \<Rightarrow> Request" where
  "speakers_request c =
     \<lparr>req_method = ''GET'', req_url = BaseURL c @ ''/speakers'', req_query = [],
      req_content_type = None, req_body = None\<rparr>"

text \<open>
  The loop of \<open>findSpeakerID\<close> (lines 75-82): the speaker and the style it returns at,
  or \<open>None\<close> when the loop runs to its end.
\<close>

fun findSpeakerID_loop :: "string \<Rightarrow> Speaker list \<Rightarrow> (Speaker \<times> SpeakerStyle) option" where
  "findSpeakerID_loop name [] = None"
| "findSpeakerID_loop name (speaker # speakers) =
     (if Name speaker = name then
        (case Styles speaker of
           style0 # _ \<Rightarrow> Some (speaker, style0)
         | [] \<Rightarrow> findSpeakerID_loop name speakers)
      else findSpeakerID_loop name speakers)"

text \<open>\<open>func (c *Client) findSpeakerID(name string) (int, error)\<close> (lines 59-85).\<close>

definition findSpeakerID :: "env \<Rightarrow> Client \<Rightarrow> string \<Rightarrow> effect list \<times> (error + int)" where
  "findSpeakerID w c name =
     (let req = speakers_request c in
      case http_do w req of
        Inl err \<Rightarrow> ([Http req], Inl (ConnectionError At_findSpeakerID err))
      | Inr resp \<Rightarrow>
          if StatusCode resp \<noteq> 200 then
            ([Http req], Inl (ProtocolError At_findSpeakerID (StatusCode resp) None))
          else
            (case decode_speakers w resp of
               Inl err \<Rightarrow> ([Http req], Inl (DecodeError At_findSpeakerID err))
             | Inr speakers \<Rightarrow>
                 (case findSpeakerID_loop name speakers of
                    Some (speaker, style0) \<Rightarrow>
                      ([Http req,
                        Stdout (MsgUsingSpeaker (Name speaker) (StyleName style0) (StyleID style0))],
                       Inr (StyleID style0))
                  | None \<Rightarrow> ([Http req], Inl (SpeakerNotFound name)))))"

text \<open>The loops of \<open>listSpeakers\<close> (lines 105-110).\<close>

fun print_styles :: "SpeakerStyle list \<Rightarrow> effect list" where
  "print_styles [] = []"
| "print_styles (style # styles) =
     Stdout (MsgListStyle (StyleName style) (StyleID style)) # print_styles styles"

fun print_speakers :: "Speaker list \<Rightarrow> effect list" where
  "print_speakers [] = []"
| "print_speakers (speaker # speakers) =
     Stdout (MsgListSpeaker (Name speaker)) # print_styles (Styles speaker)
       @ print_speakers speakers"

text \<open>\<open>func (c *Client) listSpeakers() error\<close> (lines 88-115); \<open>None\<close> is \<open>nil\<close>.\<close>

definition listSpeakers :: "env \<Rightarrow> Client \<Rightarrow> effect list \<times> error option" where
  "listSpeakers w c =
     (let req = speakers_request c in
      case http_do w req of
        Inl err \<Rightarrow> ([Http req], Some (ConnectionError At_listSpeakers err))
      | Inr resp \<Rightarrow>
          if StatusCode resp \<noteq> 200 then
            ([Http req], Some (ProtocolError At_listSpeakers (StatusCode resp) None))
          else
            (case decode_speakers w resp of
               Inl err \<Rightarrow> ([Http req], Some (DecodeError At_listSpeakers err))
             | Inr speakers \<Rightarrow>
                 (Http req # Stdout MsgListHeader # print_speakers speakers
                    @ [Stdout MsgListFooter, Stdout MsgListHint],
                  None)))"

text \<open>
  The request of \<open>createAudioQuery\<close> (lines 119-128).  \<open>params.Encode()\<close> writes the
  parameters sorted by key, so \<open>speaker\<close> comes before \<open>text\<close> in the query.
\<close>

definition audio_query_request :: "Client \<Rightarrow> string \<Rightarrow> int \<Rightarrow> Request" where
  "audio_query_request c text speakerID =
     \<lparr>req_method = ''POST'', req_url = BaseURL c @ ''/audio_query'',
      req_query = [(''speaker'', Itoa speakerID), (''text'', text)],
      req_content_type = None, req_body = None\<rparr>"

text \<open>
  \<open>func (c *Client) createAudioQuery(text string, speakerID int) (*AudioQuery, error)\<close>
  (lines 118-151).
\<close>

definition createAudioQuery ::
  "env \<Rightarrow> Client \<Rightarrow> string \<Rightarrow> int \<Rightarrow> effect list \<times> (error + AudioQuery)" where
  "createAudioQuery w c text speakerID =
     (let req = audio_query_request c text speakerID in
      case new_request_err w (req_url req) of
        Some err \<Rightarrow> ([], Inl (RequestError err))
      | None \<Rightarrow>
          (case http_do w req of
             Inl err \<Rightarrow> ([Http req], Inl (ConnectionError At_createAudioQuery err))
           | Inr resp \<Rightarrow>
               if StatusCode resp \<noteq> 200 then
                 ([Http req],
                  Inl (ProtocolError At_createAudioQuery (StatusCode resp) (Some (Body resp))))
               else
                 (case decode_audio_query w resp of
                    Inl err \<Rightarrow> ([Http req], Inl (DecodeError At_createAudioQuery err))
                  | Inr query \<Rightarrow> ([Http req], Inr query))))"

text \<open>
  \<open>json.Marshal(query)\<close> (line 155) fails exactly when a number of the query is a NaN
  or an infinity.
\<close>

definition query_encodable :: "AudioQuery \<Rightarrow> bool" where
  "query_encodable q =
     ((\<forall>v \<in> set (AccentPhrases q). json_encodable v) \<and>
      f64_is_finite (SpeedScale q) \<and> f64_is_finite (PitchScale q) \<and>
      f64_is_finite (IntonationScale q) \<and> f64_is_finite (VolumeScale q) \<and>
      f64_is_finite (PrePhonemeLength q) \<and> f64_is_finite (PostPhonemeLength q))"

text \<open>The request of \<open>synthesis\<close> (lines 160-161).\<close>

definition synthesis_request :: "Client \<Rightarrow> AudioQuery \<Rightarrow> int \<Rightarrow> Request" where
  "synthesis_request c query speakerID =
     \<lparr>req_method = ''POST'', req_url = BaseURL c @ ''/synthesis'',
      req_query = [(''speaker'', Itoa speakerID)],
      req_content_type = Some ''application/json'', req_body = Some query\<rparr>"

text \<open>
  \<open>func (c *Client) synthesis(query *AudioQuery, speakerID int) ([]byte, error)\<close>
  (lines 154-181).
\<close>

definition synthesis ::
  "env \<Rightarrow> Client \<Rightarrow> AudioQuery \<Rightarrow> int \<Rightarrow> effect list \<times> (error + string)" where
  "synthesis w c query speakerID =
     (if \<not> query_encodable query then ([], Inl EncodeError)
      else
        (let req = synthesis_request c query speakerID in
         case http_do w req of
           Inl err \<Rightarrow> ([Http req], Inl (ConnectionError At_synthesis err))
         | Inr resp \<Rightarrow>
             if StatusCode resp \<noteq> 200 then
               ([Http req],
                Inl (ProtocolError At_synthesis (StatusCode resp) (Some (Body resp))))
             else
               (case BodyErr resp of
                  Some err \<Rightarrow> ([Http req], Inl (BodyReadError err))
                | None \<Rightarrow> ([Http req], Inr (Body resp)))))"

section \<open>The command line\<close>

text \<open>
  What the command line gives each flag (\<open>None\<close> when the flag is not there), and
  \<open>os.Args[0]\<close>.  These are the command lines that \<open>flag.Parse\<close> accepts; on any
  other it ends the process itself, before line 214.
\<close>

record cmdline =
  prog :: string
  flag_i :: "string option"
  flag_o :: "string option"
  flag_actor :: "string option"
  flag_port :: "int option"
  flag_list_actors :: "bool option"
  flag_speed :: "float64 option"
  flag_pitch :: "float64 option"
  flag_intonation :: "float64 option"
  flag_volume :: "float64 option"
  flag_pre_phoneme :: "float64 option"
  flag_post_phoneme :: "float64 option"

text \<open>The variables of \<open>main\<close> that the flags set (lines 188-200).\<close>

record config =
  inputFile :: string
  outputFile :: string
  actorName :: string
  port :: int
  showActors :: bool
  speed :: float64
  pitch :: float64
  intonation :: float64
  volume :: float64
  prePhoneme :: float64
  postPhoneme :: float64

text \<open>The default of \<open>-actor\<close> (line 190), in UTF-8: five characters of three bytes each.\<close>

definition default_actor :: string where
  "default_actor =
     [CHR 0xE3, CHR 0x81, CHR 0x9A, CHR 0xE3, CHR 0x82, CHR 0x93, CHR 0xE3, CHR 0x81, CHR 0xA0,
      CHR 0xE3, CHR 0x82, CHR 0x82, CHR 0xE3, CHR 0x82, CHR 0x93]"

text \<open>
  The flag definitions with their defaults (lines 188-200) and \<open>flag.Parse()\<close> (line
  211): a variable holds its default unless the command line sets the flag.
\<close>

definition parse_flags :: "cmdline \<Rightarrow> config" where
  "parse_flags args =
     \<lparr>inputFile = (case flag_i args of None \<Rightarrow> [] | Some v \<Rightarrow> v),
      outputFile = (case flag_o args of None \<Rightarrow> [] | Some v \<Rightarrow> v),
      actorName = (case flag_actor args of None \<Rightarrow> default_actor | Some v \<Rightarrow> v),
      port = (case flag_port args of None \<Rightarrow> 50021 | Some v \<Rightarrow> v),
      showActors = (case flag_list_actors args of None \<Rightarrow> False | Some v \<Rightarrow> v),
      speed = (case flag_speed args of None \<Rightarrow> f64_one | Some v \<Rightarrow> v),
      pitch = (case flag_pitch args of None \<Rightarrow> f64_zero | Some v \<Rightarrow> v),
      intonation = (case flag_intonation args of None \<Rightarrow> f64_one | Some v \<Rightarrow> v),
      volume = (case flag_volume args of None \<Rightarrow> f64_one | Some v \<Rightarrow> v),
      prePhoneme = (case flag_pre_phoneme args of None \<Rightarrow> f64_minus_one | Some v \<Rightarrow> v),
      postPhoneme = (case flag_post_phoneme args of None \<Rightarrow> f64_minus_one | Some v \<Rightarrow> v)\<rparr>"

section \<open>The main function\<close>

text \<open>The assignments to the query (lines 251-260).\<close>

definition override_parameters :: "config \<Rightarrow> AudioQuery \<Rightarrow> AudioQuery" where
  "override_parameters cfg query =
     (let query = query\<lparr>SpeedScale := speed cfg\<rparr>;
          query = query\<lparr>PitchScale := pitch cfg\<rparr>;
          query = query\<lparr>IntonationScale := intonation cfg\<rparr>;
          query = query\<lparr>VolumeScale := volume cfg\<rparr>;
          query = (if f64_ne (prePhoneme cfg) f64_minus_one
                   then query\<lparr>PrePhonemeLength := prePhoneme cfg\<rparr> else query);
          query = (if f64_ne (postPhoneme cfg) f64_minus_one
                   then query\<lparr>PostPhonemeLength := postPhoneme cfg\<rparr> else query)
      in query)"

text \<open>
  Lines 263-279 of \<open>main\<close>: the synthesis call, the write of the output file and the
  last two messages.  The result is the effects and the exit code.
\<close>

definition main_synthesize ::
  "env \<Rightarrow> config \<Rightarrow> Client \<Rightarrow> AudioQuery \<Rightarrow> int \<Rightarrow> effect list \<times> int" where
  "main_synthesize w cfg client query speakerID =
     (case synthesis w client query speakerID of
        (es, Inl err) \<Rightarrow> (Stdout MsgSynthesizing # es @ [Stderr (MsgError err)], 1)
      | (es, Inr wavData) \<Rightarrow>
          (case write_file w (outputFile cfg) wavData of
             Some err \<Rightarrow>
               (Stdout MsgSynthesizing # es
                  @ [WriteFile (outputFile cfg) wavData, Stderr (MsgSaveFailed err)],
                1)
           | None \<Rightarrow>
               (Stdout MsgSynthesizing # es
                  @ [WriteFile (outputFile cfg) wavData, Stdout (MsgDone (elapsed w)),
                     Stdout (MsgSaved (outputFile cfg))],
                0)))"

text \<open>
  Lines 235-260 of \<open>main\<close>, then \<open>main_synthesize\<close>: the read of the input file, the
  query creation and the overrides.
\<close>

definition main_query :: "env \<Rightarrow> config \<Rightarrow> Client \<Rightarrow> int \<Rightarrow> effect list \<times> int" where
  "main_query w cfg client speakerID =
     (case read_file w (inputFile cfg) of
        Inl err \<Rightarrow>
          ([Stdout (MsgReading (inputFile cfg)), ReadFile (inputFile cfg),
            Stderr (MsgReadFailed err)],
           1)
      | Inr textBytes \<Rightarrow>
          (case createAudioQuery w client textBytes speakerID of
             (es, Inl err) \<Rightarrow>
               ([Stdout (MsgReading (inputFile cfg)), ReadFile (inputFile cfg),
                 Stdout MsgCreatingQuery] @ es @ [Stderr (MsgError err)],
                1)
           | (es, Inr query) \<Rightarrow>
               (let (es', code) =
                      main_synthesize w cfg client (override_parameters cfg query) speakerID
                in ([Stdout (MsgReading (inputFile cfg)), ReadFile (inputFile cfg),
                     Stdout MsgCreatingQuery] @ es @ [Stdout MsgAdjusting] @ es',
                    code))))"

text \<open>
  \<open>func main()\<close> (lines 185-280): the effects of the run and the exit code of the
  process.
\<close>

definition main :: "env \<Rightarrow> cmdline \<Rightarrow> effect list \<times> int" where
  "main w args =
     (let cfg = parse_flags args;
          client = NewClient (port cfg)
      in
        if showActors cfg then
          (case listSpeakers w client of
             (es, Some err) \<Rightarrow> (es @ [Stderr (MsgError err)], 1)
           | (es, None) \<Rightarrow> (es, 0))
        else if inputFile cfg = [] \<or> outputFile cfg = [] then
          ([Stderr (MsgUsage (prog args))], 1)
        else
          (case findSpeakerID w client (actorName cfg) of
             (es, Inl err) \<Rightarrow> (es @ [Stderr (MsgError err)], 1)
           | (es, Inr speakerID) \<Rightarrow>
               (let (es', code) = main_query w cfg client speakerID
                in (es @ es', code))))"

section \<open>Example worlds\<close>

text \<open>
  An engine that answers every request with the status \<open>status\<close>, whose catalog
  decodes to \<open>speakers\<close> and whose query decodes to \<open>query\<close>; a file system that holds
  the one file \<open>in.txt\<close> and accepts every write.
\<close>

definition example_env :: "int \<Rightarrow> Speaker list \<Rightarrow> AudioQuery \<Rightarrow> env" where
  "example_env status speakers query =
     \<lparr>http_do = (\<lambda>req. Inr \<lparr>StatusCode = status, Body = ''body'', BodyErr = None\<rparr>),
      new_request_err = (\<lambda>u. None),
      decode_speakers = (\<lambda>resp. Inr speakers),
      decode_audio_query = (\<lambda>resp. Inr query),
      read_file = (\<lambda>path. if path = ''in.txt'' then Inr ''hello'' else Inl ''no such file''),
      write_file = (\<lambda>path data. None),
      elapsed = 1500000000\<rparr>"

text \<open>A catalog of two speakers; the first has the default name of \<open>-actor\<close>.\<close>

definition example_speakers :: "Speaker list" where
  "example_speakers =
     [\<lparr>Name = default_actor, SpeakerUUID = ''u1'',
       Styles = [\<lparr>StyleName = ''Normal'', StyleID = 3\<rparr>, \<lparr>StyleName = ''Sweet'', StyleID = 1\<rparr>],
       Version = ''0.14''\<rparr>,
      \<lparr>Name = ''Alice'', SpeakerUUID = ''u2'',
       Styles = [\<lparr>StyleName = ''Normal'', StyleID = 0\<rparr>, \<lparr>StyleName = ''Happy'', StyleID = 1\<rparr>],
       Version = ''0.14''\<rparr>]"

text \<open>
  A catalog in which two entries have the name \<open>Bob\<close>: the first has no style, the
  second has two.
\<close>

definition duplicate_speakers :: "Speaker list" where
  "duplicate_speakers =
     [\<lparr>Name = ''Bob'', SpeakerUUID = ''u1'', Styles = [], Version = ''0.14''\<rparr>,
      \<lparr>Name = ''Bob'', SpeakerUUID = ''u2'',
       Styles = [\<lparr>StyleName = ''Normal'', StyleID = 7\<rparr>, \<lparr>StyleName = ''Whisper'', StyleID = 8\<rparr>],
       Version = ''0.14''\<rparr>]"

text \<open>
  A query as the engine returns it: speed 0.5, pitch 0.5, intonation 0.5, volume 0.5,
  and 0.1 seconds of silence before and after.
\<close>

definition example_query :: AudioQuery where
  "example_query =
     \<lparr>AccentPhrases = [JObject [(''accent'', JNumber f64_one), (''moras'', JArray [JString ''ko''])]],
      SpeedScale = 0x3FE0000000000000, PitchScale = 0x3FE0000000000000,
      IntonationScale = 0x3FE0000000000000, VolumeScale = 0x3FE0000000000000,
      PrePhonemeLength = 0x3FB999999999999A, PostPhonemeLength = 0x3FB999999999999A,
      OutputSamplingRate = 24000, OutputStereo = False, Kana = ''konnichiwa''\<rparr>"

text \<open>The command line \<open>prog\<close> with no flag at all.\<close>

definition no_flags :: cmdline where
  "no_flags =
     \<lparr>prog = ''text2voicevox'', flag_i = None, flag_o = None, flag_actor = None,
      flag_port = None, flag_list_actors = None, flag_speed = None, flag_pitch = None,
      flag_intonation = None, flag_volume = None, flag_pre_phoneme = None,
      flag_post_phoneme = None\<rparr>"

text \<open>The command line \<open>prog -i in.txt -o out.wav\<close>.\<close>

definition io_flags :: cmdline where
  "io_flags = no_flags\<lparr>flag_i := Some ''in.txt'', flag_o := Some ''out.wav''\<rparr>"

section \<open>Lemmas\<close>

subsection \<open>Comparisons with \<open>-1.0\<close>\<close>

lemmas f64_defs = f64_ne_def f64_eq_def f64_is_nan_def f64_is_zero_def f64_is_finite_def
  f64_minus_one_def f64_one_def f64_zero_def f64_exponent_mask_def f64_fraction_mask_def

lemma f64_ne_minus_one: "f64_ne x f64_minus_one \<longleftrightarrow> x \<noteq> f64_minus_one"
  by (auto simp: f64_defs)

subsection \<open>The effects of the operations\<close>

lemma print_styles_map:
  "print_styles styles = map (\<lambda>st. Stdout (MsgListStyle (StyleName st) (StyleID st))) styles"
  by (induction styles) simp_all

lemma print_speakers_concat:
  "print_speakers speakers =
     concat (map (\<lambda>sp. Stdout (MsgListSpeaker (Name sp))
                          # map (\<lambda>st. Stdout (MsgListStyle (StyleName st) (StyleID st))) (Styles sp))
                 speakers)"
  by (induction speakers) (simp_all add: print_styles_map)

lemma print_speakers_stdout:
  "e \<in> set (print_speakers speakers) \<Longrightarrow>
     (\<exists>n. e = Stdout (MsgListSpeaker n)) \<or> (\<exists>n i. e = Stdout (MsgListStyle n i))"
  by (auto simp: print_speakers_concat)

lemma listSpeakers_http:
  "Http r \<in> set (fst (listSpeakers w c)) \<Longrightarrow> r = speakers_request c"
  by (auto simp: listSpeakers_def Let_def split: sum.splits if_splits
        dest: print_speakers_stdout)

lemma findSpeakerID_http:
  "Http r \<in> set (fst (findSpeakerID w c name)) \<Longrightarrow> r = speakers_request c"
  by (auto simp: findSpeakerID_def Let_def split: sum.splits if_splits option.splits prod.splits)

lemma createAudioQuery_http:
  "Http r \<in> set (fst (createAudioQuery w c tx sid)) \<Longrightarrow> r = audio_query_request c tx sid"
  by (auto simp: createAudioQuery_def Let_def split: sum.splits if_splits option.splits)

lemma synthesis_http:
  "Http r \<in> set (fst (synthesis w c q sid)) \<Longrightarrow> r = synthesis_request c q sid \<and> query_encodable q"
  by (auto simp: synthesis_def Let_def split: sum.splits if_splits option.splits)

lemma main_synthesize_http:
  assumes "Http r \<in> set (fst (main_synthesize w cfg c q sid))"
  shows "r = synthesis_request c q sid \<and> query_encodable q"
proof -
  obtain es res where s: "synthesis w c q sid = (es, res)"
    by (cases "synthesis w c q sid")
  from assms s have "Http r \<in> set es"
    by (auto simp: main_synthesize_def split: sum.splits option.splits)
  with s synthesis_http [of r w c q sid] show ?thesis by simp
qed

text \<open>
  The only request with a body that a run sends is the synthesis request, and its body
  is the query that query creation returned, after the assignments of lines 251-260.
\<close>

lemma main_query_submitted:
  assumes "Http r \<in> set (fst (main_query w cfg c sid))" and "req_body r = Some q"
  shows "\<exists>tx q0. read_file w (inputFile cfg) =  Inr tx \<and>
           snd (createAudioQuery w c tx sid) = Inr q0 \<and>
           q = override_parameters cfg q0 \<and> query_encodable q \<and>
           r = synthesis_request c q sid"
proof (cases "read_file w (inputFile cfg)")
  case (Inl err)
  with assms show ?thesis by (simp add: main_query_def)
next
  case (Inr tx)
  obtain es res where c: "createAudioQuery w c tx sid = (es, res)"
    by (cases "createAudioQuery w c tx sid")
  have nobody: "\<not> Http r \<in> set es"
  proof
    assume "Http r \<in> set es"
    with c createAudioQuery_http [of r w c tx sid] have "r = audio_query_request c tx sid"
      by simp
    with assms(2) show False by (simp add: audio_query_request_def)
  qed
  show ?thesis
  proof (cases res)
    case (Inl err)
    with assms Inr c nobody show ?thesis by (simp add: main_query_def)
  next
    case (Inr q0)
    obtain es' code where m: "main_synthesize w cfg c (override_parameters cfg q0) sid = (es', code)"
      by (cases "main_synthesize w cfg c (override_parameters cfg q0) sid")
    from assms(1) \<open>read_file w (inputFile cfg) =  Inr tx\<close> c Inr m nobody
    have "Http r \<in> set es'" by (simp add: main_query_def)
    with m main_synthesize_http [of r w cfg c "override_parameters cfg q0" sid]
    have r: "r = synthesis_request c (override_parameters cfg q0) sid"
      and e: "query_encodable (override_parameters cfg q0)" by simp_all
    from r assms(2) have "q = override_parameters cfg q0" by (simp add: synthesis_request_def)
    with r e c Inr \<open>read_file w (inputFile cfg) =  Inr tx\<close> show ?thesis by simp
  qed
qed

lemma main_submitted:
  assumes "Http r \<in> set (fst (main w args))" and "req_body r = Some q"
  shows "\<exists>sid tx q0.
           snd (findSpeakerID w (NewClient (port (parse_flags args))) (actorName (parse_flags args)))
             = Inr sid \<and>
           read_file w (inputFile (parse_flags args)) =  Inr tx \<and>
           snd (createAudioQuery w (NewClient (port (parse_flags args))) tx sid) = Inr q0 \<and>
           q = override_parameters (parse_flags args) q0 \<and> query_encodable q \<and>
           r = synthesis_request (NewClient (port (parse_flags args))) q sid"
proof -
  define cfg where "cfg = parse_flags args"
  define c where "c = NewClient (port cfg)"
  have list: "\<not> showActors cfg"
  proof
    assume sa: "showActors cfg"
    obtain es res where l: "listSpeakers w c = (es, res)" by (cases "listSpeakers w c")
    from assms(1) sa l have "Http r \<in> set es"
      by (auto simp: main_def Let_def cfg_def c_def split: option.splits)
    with l listSpeakers_http [of r w c] have "r = speakers_request c" by simp
    with assms(2) show False by (simp add: speakers_request_def)
  qed
  have paths: "\<not> (inputFile cfg = [] \<or> outputFile cfg = [])"
  proof
    assume "inputFile cfg = [] \<or> outputFile cfg = []"
    with assms(1) list show False by (auto simp: main_def Let_def cfg_def)
  qed
  obtain es res where f: "findSpeakerID w c (actorName cfg) = (es, res)"
    by (cases "findSpeakerID w c (actorName cfg)")
  have nobody: "\<not> Http r \<in> set es"
  proof
    assume "Http r \<in> set es"
    with f findSpeakerID_http [of r w c "actorName cfg"] have "r = speakers_request c" by simp
    with assms(2) show False by (simp add: speakers_request_def)
  qed
  show ?thesis
  proof (cases res)
    case (Inl err)
    with assms(1) list paths f nobody show ?thesis
      by (simp add: main_def Let_def cfg_def c_def)
  next
    case (Inr sid)
    obtain es' code where m: "main_query w cfg c sid = (es', code)"
      by (cases "main_query w cfg c sid")
    from assms(1) list paths f Inr m nobody have "Http r \<in> set es'"
      by (simp add: main_def Let_def cfg_def c_def)
    with m main_query_submitted [of r w cfg c sid q] assms(2)
    obtain tx q0 where "read_file w (inputFile cfg) =  Inr tx"
      "snd (createAudioQuery w c tx sid) = Inr q0"
      "q = override_parameters cfg q0" "query_encodable q" "r = synthesis_request c q sid"
      by auto
    with f Inr show ?thesis unfolding cfg_def c_def by auto
  qed
qed


subsection \<open>The loop of \<open>findSpeakerID\<close>\<close>

lemma findSpeakerID_loop_first:
  "find (\<lambda>sp. Name sp = name) speakers = Some sp \<Longrightarrow> Styles sp = st # rest \<Longrightarrow>
     findSpeakerID_loop name speakers = Some (sp, st)"
  by (induction speakers) (auto split: if_splits)

lemma findSpeakerID_loop_find:
  "find (\<lambda>sp. Name sp = name \<and> Styles sp \<noteq> []) speakers = Some sp \<Longrightarrow>
     Styles sp = st # rest \<Longrightarrow> findSpeakerID_loop name speakers = Some (sp, st)"
  by (induction speakers) (auto split: if_splits list.splits)

lemma findSpeakerID_loop_None:
  "findSpeakerID_loop name speakers = None \<longleftrightarrow>
     (\<forall>sp \<in> set speakers. Name sp = name \<longrightarrow> Styles sp = [])"
  by (induction speakers) (auto split: list.splits)


subsection \<open>The listing mode\<close>

lemma listSpeakers_effects:
  assumes "e \<in> set (fst (listSpeakers w c))"
  shows "e = Http (speakers_request c) \<or> e = Stdout MsgListHeader \<or>
         (\<exists>n. e = Stdout (MsgListSpeaker n)) \<or> (\<exists>n i. e = Stdout (MsgListStyle n i)) \<or>
         e = Stdout MsgListFooter \<or> e = Stdout MsgListHint"
  using assms
  by (auto simp: listSpeakers_def Let_def split: sum.splits if_splits
        dest: print_speakers_stdout)

lemma listSpeakers_request:
  "Http (speakers_request c) \<in> set (fst (listSpeakers w c))"
  by (simp add: listSpeakers_def Let_def split: sum.splits)

lemma main_list_mode:
  assumes "showActors (parse_flags args)"
  shows "main w args =
     (case snd (listSpeakers w (NewClient (port (parse_flags args)))) of
        Some err \<Rightarrow> (fst (listSpeakers w (NewClient (port (parse_flags args))))
                       @ [Stderr (MsgError err)], 1)
      | None \<Rightarrow> (fst (listSpeakers w (NewClient (port (parse_flags args)))), 0))"
  using assms
  by (cases "listSpeakers w (NewClient (port (parse_flags args)))")
     (simp add: main_def Let_def split: option.splits)


subsection \<open>Unfolding the program on a concrete input\<close>

lemmas client_defs = findSpeakerID_def listSpeakers_def createAudioQuery_def synthesis_def
  speakers_request_def audio_query_request_def synthesis_request_def query_encodable_def
  NewClient_def Itoa_def nat_digits.simps digits_def

lemmas main_defs = main_def main_query_def main_synthesize_def override_parameters_def
  parse_flags_def

lemmas example_defs = example_env_def example_speakers_def duplicate_speakers_def
  example_query_def no_flags_def io_flags_def default_actor_def

section \<open>The claims\<close>

text \<open>
  C1.  In every run, a query that is sent to synthesis has as its pre-phoneme length
  the value of \<open>-pre-phoneme\<close> on the command line (\<open>-1.0\<close> when the flag is not given,
  lines 199-200) when that value differs from \<open>-1.0\<close>, and the length that query
  creation returned when that value is \<open>-1.0\<close>; and the same for the post-phoneme
  length and \<open>-post-phoneme\<close>.  The query creation is the one of the run: for the
  speaker the run resolved and the text it read.  A value differs from \<open>-1.0\<close> exactly
  when its bits are not those of \<open>-1.0\<close>.
\<close>

theorem C1_phoneme_overrides:
  assumes "Http r \<in> set (fst (main w args))" and "req_body r = Some q"
  shows "\<exists>sid tx q0.
           snd (findSpeakerID w (NewClient (port (parse_flags args)))
                  (actorName (parse_flags args))) = Inr sid \<and>
           read_file w (inputFile (parse_flags args)) = Inr tx \<and>
           snd (createAudioQuery w (NewClient (port (parse_flags args))) tx sid) = Inr q0 \<and>
           PrePhonemeLength q =
             (let v = (case flag_pre_phoneme args of None \<Rightarrow> f64_minus_one | Some x \<Rightarrow> x)
              in if f64_ne v f64_minus_one then v else PrePhonemeLength q0) \<and>
           PostPhonemeLength q =
             (let v = (case flag_post_phoneme args of None \<Rightarrow> f64_minus_one | Some x \<Rightarrow> x)
              in if f64_ne v f64_minus_one then v else PostPhonemeLength q0) \<and>
           (\<forall>v. f64_ne v f64_minus_one \<longleftrightarrow> v \<noteq> 0xBFF0000000000000)"
proof -
  from main_submitted [OF assms] obtain sid tx q0 where
    f: "snd (findSpeakerID w (NewClient (port (parse_flags args)))
              (actorName (parse_flags args))) = Inr sid"
    and rd: "read_file w (inputFile (parse_flags args)) = Inr tx"
    and c: "snd (createAudioQuery w (NewClient (port (parse_flags args))) tx sid) = Inr q0"
    and q: "q = override_parameters (parse_flags args) q0"
    by blast
  from q have "PrePhonemeLength q =
      (let v = (case flag_pre_phoneme args of None \<Rightarrow> f64_minus_one | Some x \<Rightarrow> x)
       in if f64_ne v f64_minus_one then v else PrePhonemeLength q0)"
    by (simp add: override_parameters_def parse_flags_def Let_def)
  moreover from q have "PostPhonemeLength q =
      (let v = (case flag_post_phoneme args of None \<Rightarrow> f64_minus_one | Some x \<Rightarrow> x)
       in if f64_ne v f64_minus_one then v else PostPhonemeLength q0)"
    by (simp add: override_parameters_def parse_flags_def Let_def)
  moreover have "\<forall>v. f64_ne v f64_minus_one \<longleftrightarrow> v \<noteq> 0xBFF0000000000000"
    using f64_ne_minus_one by (simp add: f64_minus_one_def)
  ultimately show ?thesis using f rd c by blast
qed

text \<open>
  The run \<open>-i in.txt -o out.wav -pre-phoneme -0.5\<close>: the query sent has \<open>-0.5\<close> before
  and, \<open>-post-phoneme\<close> not being given, the engine's 0.1 seconds after.
\<close>

theorem C1_phoneme_overrides_witness:
  "Http (synthesis_request (NewClient 50021)
           (example_query\<lparr>SpeedScale := f64_one, PitchScale := f64_zero,
              IntonationScale := f64_one, VolumeScale := f64_one,
              PrePhonemeLength := 0xBFE0000000000000\<rparr>) 3)
     \<in> set (fst (main (example_env 200 example_speakers example_query)
                  (io_flags\<lparr>flag_pre_phoneme := Some 0xBFE0000000000000\<rparr>))) \<and>
   flag_pre_phoneme (io_flags\<lparr>flag_pre_phoneme := Some 0xBFE0000000000000\<rparr>)
     = Some 0xBFE0000000000000 \<and>
   flag_post_phoneme (io_flags\<lparr>flag_pre_phoneme := Some 0xBFE0000000000000\<rparr>) = None \<and>
   PrePhonemeLength (example_query\<lparr>SpeedScale := f64_one, PitchScale := f64_zero,
              IntonationScale := f64_one, VolumeScale := f64_one,
              PrePhonemeLength := 0xBFE0000000000000\<rparr>) = 0xBFE0000000000000 \<and>
   PostPhonemeLength (example_query\<lparr>SpeedScale := f64_one, PitchScale := f64_zero,
              IntonationScale := f64_one, VolumeScale := f64_one,
              PrePhonemeLength := 0xBFE0000000000000\<rparr>) = 0x3FB999999999999A"
proof -
  let ?w = "example_env 200 example_speakers example_query"
  let ?a = "io_flags\<lparr>flag_pre_phoneme := Some 0xBFE0000000000000\<rparr>"
  let ?q = "example_query\<lparr>SpeedScale := f64_one, PitchScale := f64_zero,
              IntonationScale := f64_one, VolumeScale := f64_one,
              PrePhonemeLength := 0xBFE0000000000000\<rparr>"
  let ?r = "synthesis_request (NewClient 50021) ?q 3"
  have pre: "flag_pre_phoneme ?a = Some 0xBFE0000000000000"
    by (simp add: example_defs)
  have post: "flag_post_phoneme ?a = None"
    by (simp add: example_defs)
  have h1: "Http ?r \<in> set (fst (main ?w ?a))"
    by (simp add: main_defs client_defs example_defs f64_defs Let_def)
  have h2: "req_body ?r = Some ?q"
    by (simp add: synthesis_request_def)
  from C1_phoneme_overrides [OF h1 h2] obtain sid tx q0 where
    c: "snd (createAudioQuery ?w (NewClient (port (parse_flags ?a))) tx sid) = Inr q0"
    and a: "PrePhonemeLength ?q =
             (let v = (case flag_pre_phoneme ?a of None \<Rightarrow> f64_minus_one | Some x \<Rightarrow> x)
              in if f64_ne v f64_minus_one then v else PrePhonemeLength q0)"
    and b: "PostPhonemeLength ?q =
             (let v = (case flag_post_phoneme ?a of None \<Rightarrow> f64_minus_one | Some x \<Rightarrow> x)
              in if f64_ne v f64_minus_one then v else PostPhonemeLength q0)"
    by blast
  from c have q0: "q0 = example_query"
    by (simp add: createAudioQuery_def example_env_def Let_def)
  have ne: "f64_ne 0xBFE0000000000000 f64_minus_one" "\<not> f64_ne f64_minus_one f64_minus_one"
    by (simp_all add: f64_defs)
  from a pre ne have a': "PrePhonemeLength ?q = 0xBFE0000000000000"
    by (simp add: Let_def)
  from b post ne q0 have b': "PostPhonemeLength ?q = PostPhonemeLength example_query"
    by (simp add: Let_def)
  then have b'': "PostPhonemeLength ?q = 0x3FB999999999999A"
    by (simp add: example_query_def)
  from h1 pre post a' b'' show ?thesis by blast
qed


text \<open>
  C2.  In every run, a query that is sent to synthesis has as its speed, pitch,
  intonation and volume scales the values of the flags \<open>-speed\<close>, \<open>-pitch\<close>,
  \<open>-intonation\<close> and \<open>-volume\<close>, and \<open>1.0\<close>, \<open>0.0\<close>, \<open>1.0\<close> and \<open>1.0\<close> for a flag
  that is not given, whatever the engine returned.
\<close>

theorem C2_scale_overrides:
  assumes "Http r \<in> set (fst (main w args))" and "req_body r = Some q"
  shows "SpeedScale q = (case flag_speed args of None \<Rightarrow> f64_one | Some v \<Rightarrow> v) \<and>
         PitchScale q = (case flag_pitch args of None \<Rightarrow> f64_zero | Some v \<Rightarrow> v) \<and>
         IntonationScale q = (case flag_intonation args of None \<Rightarrow> f64_one | Some v \<Rightarrow> v) \<and>
         VolumeScale q = (case flag_volume args of None \<Rightarrow> f64_one | Some v \<Rightarrow> v)"
proof -
  from main_submitted [OF assms] obtain q0 where
    q: "q = override_parameters (parse_flags args) q0"
    by blast
  have "SpeedScale (override_parameters cfg q0) = speed cfg"
    "PitchScale (override_parameters cfg q0) = pitch cfg"
    "IntonationScale (override_parameters cfg q0) = intonation cfg"
    "VolumeScale (override_parameters cfg q0) = volume cfg" for cfg
    by (simp_all add: override_parameters_def Let_def)
  with q show ?thesis by (simp add: parse_flags_def)
qed

text \<open>
  The run \<open>-i in.txt -o out.wav -speed 2.0\<close> against an engine whose query has 0.5 in
  all four scales.
\<close>

theorem C2_scale_overrides_witness:
  "Http (synthesis_request (NewClient 50021)
           (example_query\<lparr>SpeedScale := 0x4000000000000000, PitchScale := f64_zero,
              IntonationScale := f64_one, VolumeScale := f64_one\<rparr>) 3)
     \<in> set (fst (main (example_env 200 example_speakers example_query)
                  (io_flags\<lparr>flag_speed := Some 0x4000000000000000\<rparr>))) \<and>
   SpeedScale example_query = 0x3FE0000000000000 \<and>
   SpeedScale (example_query\<lparr>SpeedScale := 0x4000000000000000, PitchScale := f64_zero,
              IntonationScale := f64_one, VolumeScale := f64_one\<rparr>) = 0x4000000000000000 \<and>
   PitchScale (example_query\<lparr>SpeedScale := 0x4000000000000000, PitchScale := f64_zero,
              IntonationScale := f64_one, VolumeScale := f64_one\<rparr>) = f64_zero \<and>
   IntonationScale (example_query\<lparr>SpeedScale := 0x4000000000000000, PitchScale := f64_zero,
              IntonationScale := f64_one, VolumeScale := f64_one\<rparr>) = f64_one \<and>
   VolumeScale (example_query\<lparr>SpeedScale := 0x4000000000000000, PitchScale := f64_zero,
              IntonationScale := f64_one, VolumeScale := f64_one\<rparr>) = f64_one"
proof -
  let ?w = "example_env 200 example_speakers example_query"
  let ?a = "io_flags\<lparr>flag_speed := Some 0x4000000000000000\<rparr>"
  let ?q = "example_query\<lparr>SpeedScale := 0x4000000000000000, PitchScale := f64_zero,
              IntonationScale := f64_one, VolumeScale := f64_one\<rparr>"
  let ?r = "synthesis_request (NewClient 50021) ?q 3"
  have h1: "Http ?r \<in> set (fst (main ?w ?a))"
    by (simp add: main_defs client_defs example_defs f64_defs Let_def)
  have h2: "req_body ?r = Some ?q"
    by (simp add: synthesis_request_def)
  have e: "SpeedScale example_query = 0x3FE0000000000000"
    by (simp add: example_query_def)
  from C2_scale_overrides [OF h1 h2] h1 e show ?thesis
    by (simp add: example_defs)
qed

text \<open>
  C5.  In every run, a query that is sent to synthesis has the accent phrases, the
  output sampling rate, the output stereo flag and the kana string of the query that
  the run's query creation returned.
\<close>

theorem C5_frame:
  assumes "Http r \<in> set (fst (main w args))" and "req_body r = Some q"
  shows "\<exists>sid tx q0.
           snd (findSpeakerID w (NewClient (port (parse_flags args)))
                  (actorName (parse_flags args))) = Inr sid \<and>
           read_file w (inputFile (parse_flags args)) = Inr tx \<and>
           snd (createAudioQuery w (NewClient (port (parse_flags args))) tx sid) = Inr q0 \<and>
           AccentPhrases q = AccentPhrases q0 \<and>
           OutputSamplingRate q = OutputSamplingRate q0 \<and>
           OutputStereo q = OutputStereo q0 \<and>
           Kana q = Kana q0"
proof -
  from main_submitted [OF assms] obtain sid tx q0 where
    f: "snd (findSpeakerID w (NewClient (port (parse_flags args)))
              (actorName (parse_flags args))) = Inr sid"
    and rd: "read_file w (inputFile (parse_flags args)) = Inr tx"
    and c: "snd (createAudioQuery w (NewClient (port (parse_flags args))) tx sid) = Inr q0"
    and q: "q = override_parameters (parse_flags args) q0"
    by blast
  from q have "AccentPhrases q = AccentPhrases q0" "OutputSamplingRate q = OutputSamplingRate q0"
    "OutputStereo q = OutputStereo q0" "Kana q = Kana q0"
    by (simp_all add: override_parameters_def Let_def)
  with f rd c show ?thesis by blast
qed

text \<open>
  The run \<open>-i in.txt -o out.wav -pre-phoneme 0.0 -post-phoneme 1.0\<close>, which changes all
  six scalars of the engine's query and nothing else.
\<close>

theorem C5_frame_witness:
  "Http (synthesis_request (NewClient 50021)
           (example_query\<lparr>SpeedScale := f64_one, PitchScale := f64_zero,
              IntonationScale := f64_one, VolumeScale := f64_one,
              PrePhonemeLength := f64_zero, PostPhonemeLength := f64_one\<rparr>) 3)
     \<in> set (fst (main (example_env 200 example_speakers example_query)
                  (io_flags\<lparr>flag_pre_phoneme := Some f64_zero,
                     flag_post_phoneme := Some f64_one\<rparr>))) \<and>
   AccentPhrases (example_query\<lparr>SpeedScale := f64_one, PitchScale := f64_zero,
              IntonationScale := f64_one, VolumeScale := f64_one,
              PrePhonemeLength := f64_zero, PostPhonemeLength := f64_one\<rparr>)
     = [JObject [(''accent'', JNumber f64_one), (''moras'', JArray [JString ''ko''])]] \<and>
   OutputSamplingRate (example_query\<lparr>SpeedScale := f64_one, PitchScale := f64_zero,
              IntonationScale := f64_one, VolumeScale := f64_one,
              PrePhonemeLength := f64_zero, PostPhonemeLength := f64_one\<rparr>) = 24000 \<and>
   OutputStereo (example_query\<lparr>SpeedScale := f64_one, PitchScale := f64_zero,
              IntonationScale := f64_one, VolumeScale := f64_one,
              PrePhonemeLength := f64_zero, PostPhonemeLength := f64_one\<rparr>) = False \<and>
   Kana (example_query\<lparr>SpeedScale := f64_one, PitchScale := f64_zero,
              IntonationScale := f64_one, VolumeScale := f64_one,
              PrePhonemeLength := f64_zero, PostPhonemeLength := f64_one\<rparr>) = ''konnichiwa''"
proof -
  let ?w = "example_env 200 example_speakers example_query"
  let ?a = "io_flags\<lparr>flag_pre_phoneme := Some f64_zero, flag_post_phoneme := Some f64_one\<rparr>"
  let ?q = "example_query\<lparr>SpeedScale := f64_one, PitchScale := f64_zero,
              IntonationScale := f64_one, VolumeScale := f64_one,
              PrePhonemeLength := f64_zero, PostPhonemeLength := f64_one\<rparr>"
  let ?r = "synthesis_request (NewClient 50021) ?q 3"
  have h1: "Http ?r \<in> set (fst (main ?w ?a))"
    by (simp add: main_defs client_defs example_defs f64_defs Let_def)
  have h2: "req_body ?r = Some ?q"
    by (simp add: synthesis_request_def)
  from C5_frame [OF h1 h2] obtain sid tx q0 where
    c: "snd (createAudioQuery ?w (NewClient (port (parse_flags ?a))) tx sid) = Inr q0"
    and k: "AccentPhrases ?q = AccentPhrases q0" "OutputSamplingRate ?q = OutputSamplingRate q0"
      "OutputStereo ?q = OutputStereo q0" "Kana ?q = Kana q0"
    by blast
  from c have "q0 = example_query"
    by (simp add: createAudioQuery_def example_env_def Let_def)
  with k have "AccentPhrases ?q = AccentPhrases example_query"
    "OutputSamplingRate ?q = OutputSamplingRate example_query"
    "OutputStereo ?q = OutputStereo example_query" "Kana ?q = Kana example_query"
    by simp_all
  then have "AccentPhrases ?q
       = [JObject [(''accent'', JNumber f64_one), (''moras'', JArray [JString ''ko''])]]"
    "OutputSamplingRate ?q = 24000" "OutputStereo ?q = False" "Kana ?q = ''konnichiwa''"
    by (simp_all add: example_query_def)
  with h1 show ?thesis by blast
qed

text \<open>
  C3.  When the engine answers the catalog request with status 200 and a catalog that
  decodes, and the first entry of the catalog whose name is the requested name has a
  style, \<open>findSpeakerID\<close> returns the identifier of the first style of that entry.
\<close>

theorem C3_first_style:
  assumes "http_do w (speakers_request c) = Inr resp" and "StatusCode resp = 200"
    and "decode_speakers w resp = Inr speakers"
    and "find (\<lambda>sp. Name sp = name) speakers = Some sp"
    and "Styles sp = st # rest"
  shows "snd (findSpeakerID w c name) = Inr (StyleID st)"
  using assms findSpeakerID_loop_first [of name speakers sp st rest]
  by (simp add: findSpeakerID_def Let_def)

text \<open>
  The name \<open>Alice\<close> in the example catalog: the second entry, whose styles are
  \<open>Normal\<close> (0) and \<open>Happy\<close> (1).
\<close>

theorem C3_first_style_witness:
  "find (\<lambda>sp. Name sp = ''Alice'') example_speakers = Some (example_speakers ! 1) \<and>
   Styles (example_speakers ! 1)
     = [\<lparr>StyleName = ''Normal'', StyleID = 0\<rparr>, \<lparr>StyleName = ''Happy'', StyleID = 1\<rparr>] \<and>
   snd (findSpeakerID (example_env 200 example_speakers example_query) (NewClient 50021) ''Alice'')
     = Inr 0"
proof -
  let ?w = "example_env 200 example_speakers example_query"
  let ?c = "NewClient 50021"
  let ?resp = "\<lparr>StatusCode = 200, Body = ''body'', BodyErr = None\<rparr>"
  have h1: "http_do ?w (speakers_request ?c) = Inr ?resp" by (simp add: example_env_def)
  have h2: "StatusCode ?resp = 200" by simp
  have h3: "decode_speakers ?w ?resp = Inr example_speakers" by (simp add: example_env_def)
  have h4: "find (\<lambda>sp. Name sp = ''Alice'') example_speakers = Some (example_speakers ! 1)"
    by (simp add: example_speakers_def default_actor_def)
  have h5: "Styles (example_speakers ! 1)
     = \<lparr>StyleName = ''Normal'', StyleID = 0\<rparr> # [\<lparr>StyleName = ''Happy'', StyleID = 1\<rparr>]"
    by (simp add: example_speakers_def)
  from C3_first_style [OF h1 h2 h3 h4 h5] h4 h5 show ?thesis by simp
qed

text \<open>
  C4, as amended.  When the engine answers the catalog request with status 200 and a
  catalog that decodes, \<open>findSpeakerID\<close> fails with \<open>SpeakerNotFound\<close> exactly when
  every entry with the requested name has an empty style list: so when no entry has
  the name, and when all entries with the name have no style.  Otherwise an entry with
  the name and no style is passed over, and the result is the identifier of the first
  style of the first entry that has the name and a style.
\<close>

theorem C4_not_found:
  assumes "http_do w (speakers_request c) = Inr resp" and "StatusCode resp = 200"
    and "decode_speakers w resp = Inr speakers"
  shows "(snd (findSpeakerID w c name) = Inl (SpeakerNotFound name) \<longleftrightarrow>
            (\<forall>sp \<in> set speakers. Name sp = name \<longrightarrow> Styles sp = [])) \<and>
         (\<forall>sp st rest.
            find (\<lambda>sp. Name sp = name \<and> Styles sp \<noteq> []) speakers = Some sp \<and>
            Styles sp = st # rest \<longrightarrow>
            snd (findSpeakerID w c name) = Inr (StyleID st))"
proof -
  have nf: "snd (findSpeakerID w c name) = Inl (SpeakerNotFound name) \<longleftrightarrow>
              (\<forall>sp \<in> set speakers. Name sp = name \<longrightarrow> Styles sp = [])"
  proof (cases "findSpeakerID_loop name speakers")
    case None
    with assms findSpeakerID_loop_None [of name speakers] show ?thesis
      by (simp add: findSpeakerID_def Let_def)
  next
    case (Some found)
    with assms findSpeakerID_loop_None [of name speakers] show ?thesis
      by (cases found) (simp add: findSpeakerID_def Let_def)
  qed
  have fd: "snd (findSpeakerID w c name) = Inr (StyleID st)"
    if "find (\<lambda>sp. Name sp = name \<and> Styles sp \<noteq> []) speakers = Some sp"
      and "Styles sp = st # rest" for sp st rest
    using assms findSpeakerID_loop_find [OF that]
    by (simp add: findSpeakerID_def Let_def)
  from nf fd show ?thesis by blast
qed

text \<open>
  No entry of the example catalog is named \<open>Carol\<close>; the catalog of the one entry \<open>Bob\<close>
  with no style; and the catalog \<open>duplicate_speakers\<close>, where the first \<open>Bob\<close> has no
  style and the second has the styles 7 and 8.
\<close>

theorem C4_not_found_witness:
  "snd (findSpeakerID (example_env 200 example_speakers example_query) (NewClient 50021) ''Carol'')
     = Inl (SpeakerNotFound ''Carol'') \<and>
   snd (findSpeakerID (example_env 200 [hd duplicate_speakers] example_query) (NewClient 50021) ''Bob'')
     = Inl (SpeakerNotFound ''Bob'') \<and>
   Name (hd duplicate_speakers) = ''Bob'' \<and> Styles (hd duplicate_speakers) = [] \<and>
   find (\<lambda>sp. Name sp = ''Bob'' \<and> Styles sp \<noteq> []) duplicate_speakers
     = Some (duplicate_speakers ! 1) \<and>
   Styles (duplicate_speakers ! 1)
     = [\<lparr>StyleName = ''Normal'', StyleID = 7\<rparr>, \<lparr>StyleName = ''Whisper'', StyleID = 8\<rparr>] \<and>
   snd (findSpeakerID (example_env 200 duplicate_speakers example_query) (NewClient 50021) ''Bob'')
     = Inr 7"
proof -
  let ?c = "NewClient 50021"
  let ?resp = "\<lparr>StatusCode = 200, Body = ''body'', BodyErr = None\<rparr>"
  have a: "\<forall>sp \<in> set example_speakers. Name sp = ''Carol'' \<longrightarrow> Styles sp = []"
    by (simp add: example_speakers_def default_actor_def)
  have b: "\<forall>sp \<in> set [hd duplicate_speakers]. Name sp = ''Bob'' \<longrightarrow> Styles sp = []"
    by (simp add: duplicate_speakers_def)
  have n: "Name (hd duplicate_speakers) = ''Bob''" "Styles (hd duplicate_speakers) = []"
    by (simp_all add: duplicate_speakers_def)
  have d: "find (\<lambda>sp. Name sp = ''Bob'' \<and> Styles sp \<noteq> []) duplicate_speakers
             = Some (duplicate_speakers ! 1)"
    by (simp add: duplicate_speakers_def)
  have s: "Styles (duplicate_speakers ! 1)
             = \<lparr>StyleName = ''Normal'', StyleID = 7\<rparr> # [\<lparr>StyleName = ''Whisper'', StyleID = 8\<rparr>]"
    by (simp add: duplicate_speakers_def)
  have e: "http_do (example_env 200 sps example_query) (speakers_request ?c) = Inr ?resp"
    "StatusCode ?resp = 200"
    "decode_speakers (example_env 200 sps example_query) ?resp = Inr sps" for sps
    by (simp_all add: example_env_def)
  have "snd (findSpeakerID (example_env 200 example_speakers example_query) ?c ''Carol'')
     = Inl (SpeakerNotFound ''Carol'')"
    using C4_not_found [OF e, of example_speakers "''Carol''"] a by blast
  moreover have "snd (findSpeakerID (example_env 200 [hd duplicate_speakers] example_query) ?c ''Bob'')
     = Inl (SpeakerNotFound ''Bob'')"
    using C4_not_found [OF e, of "[hd duplicate_speakers]" "''Bob''"] b by blast
  moreover have "snd (findSpeakerID (example_env 200 duplicate_speakers example_query) ?c ''Bob'')
     = Inr (StyleID \<lparr>StyleName = ''Normal'', StyleID = 7\<rparr>)"
    using C4_not_found [OF e, of duplicate_speakers "''Bob''"] d s by blast
  ultimately show ?thesis using n d s by simp
qed

text \<open>
  C4 as the claim states it fails: in the catalog \<open>duplicate_speakers\<close> the first entry
  named \<open>Bob\<close> has no style, and \<open>findSpeakerID\<close> goes on to the second entry named
  \<open>Bob\<close> and returns its first style, 7.
\<close>

theorem C4_first_match_empty_counterexample:
  "find (\<lambda>sp. Name sp = ''Bob'') duplicate_speakers = Some (hd duplicate_speakers) \<and>
   Styles (hd duplicate_speakers) = [] \<and>
   snd (findSpeakerID (example_env 200 duplicate_speakers example_query) (NewClient 50021) ''Bob'')
     = Inr 7 \<and>
   snd (findSpeakerID (example_env 200 duplicate_speakers example_query) (NewClient 50021) ''Bob'')
     \<noteq> Inl (SpeakerNotFound ''Bob'')"
  by (simp add: findSpeakerID_def example_env_def duplicate_speakers_def Let_def)


text \<open>
  C6.  When the engine answers with a status outside 200..299, each of the four
  operations fails with the \<open>ProtocolError\<close> of that status code; the one of
  \<open>createAudioQuery\<close> and of \<open>synthesis\<close> holds the text of the response body too.
  For \<open>createAudioQuery\<close> and \<open>synthesis\<close> the request is one that is sent:
  \<open>http.NewRequest\<close> and \<open>json.Marshal\<close> succeed.
\<close>

theorem C6_protocol_error:
  assumes "StatusCode resp < 200 \<or> 299 < StatusCode resp"
  shows "(http_do w (speakers_request c) = Inr resp \<longrightarrow>
            snd (listSpeakers w c)
              = Some (ProtocolError At_listSpeakers (StatusCode resp) None) \<and>
            snd (findSpeakerID w c name)
              = Inl (ProtocolError At_findSpeakerID (StatusCode resp) None)) \<and>
         (new_request_err w (BaseURL c @ ''/audio_query'') = None \<and>
          http_do w (audio_query_request c tx sid) = Inr resp \<longrightarrow>
            snd (createAudioQuery w c tx sid)
              = Inl (ProtocolError At_createAudioQuery (StatusCode resp) (Some (Body resp)))) \<and>
         (query_encodable q \<and> http_do w (synthesis_request c q sid) = Inr resp \<longrightarrow>
            snd (synthesis w c q sid)
              = Inl (ProtocolError At_synthesis (StatusCode resp) (Some (Body resp))))"
proof -
  from assms have ne: "StatusCode resp \<noteq> 200" by arith
  have "snd (listSpeakers w c) = Some (ProtocolError At_listSpeakers (StatusCode resp) None)"
    if "http_do w (speakers_request c) = Inr resp"
    using that ne by (simp add: listSpeakers_def Let_def)
  moreover
  have "snd (findSpeakerID w c name) = Inl (ProtocolError At_findSpeakerID (StatusCode resp) None)"
    if "http_do w (speakers_request c) = Inr resp"
    using that ne by (simp add: findSpeakerID_def Let_def)
  moreover
  have "snd (createAudioQuery w c tx sid)
          = Inl (ProtocolError At_createAudioQuery (StatusCode resp) (Some (Body resp)))"
    if "new_request_err w (BaseURL c @ ''/audio_query'') = None"
      and "http_do w (audio_query_request c tx sid) = Inr resp"
    using that ne by (simp add: createAudioQuery_def Let_def audio_query_request_def)
  moreover
  have "snd (synthesis w c q sid)
          = Inl (ProtocolError At_synthesis (StatusCode resp) (Some (Body resp)))"
    if "query_encodable q" and "http_do w (synthesis_request c q sid) = Inr resp"
    using that ne by (simp add: synthesis_def Let_def)
  ultimately show ?thesis by blast
qed

text \<open>An engine that answers every request with 503 and the body \<open>body\<close>.\<close>

theorem C6_protocol_error_witness:
  "snd (listSpeakers (example_env 503 example_speakers example_query) (NewClient 50021))
     = Some (ProtocolError At_listSpeakers 503 None) \<and>
   snd (findSpeakerID (example_env 503 example_speakers example_query) (NewClient 50021) ''Alice'')
     = Inl (ProtocolError At_findSpeakerID 503 None) \<and>
   snd (createAudioQuery (example_env 503 example_speakers example_query) (NewClient 50021)
          ''hello'' 0)
     = Inl (ProtocolError At_createAudioQuery 503 (Some ''body'')) \<and>
   snd (synthesis (example_env 503 example_speakers example_query) (NewClient 50021)
          example_query 0)
     = Inl (ProtocolError At_synthesis 503 (Some ''body''))"
proof -
  let ?w = "example_env 503 example_speakers example_query"
  let ?resp = "\<lparr>StatusCode = 503, Body = ''body'', BodyErr = None\<rparr>"
  have s: "StatusCode ?resp < 200 \<or> 299 < StatusCode ?resp" by simp
  have e: "query_encodable example_query"
    by (simp add: query_encodable_def example_query_def f64_defs)
  have h: "http_do ?w r = Inr ?resp" "new_request_err ?w u = None" for r u
    by (simp_all add: example_env_def)
  from C6_protocol_error [OF s, where w = ?w and c = "NewClient 50021" and name = "''Alice''"
      and tx = "''hello''" and sid = 0 and q = example_query]
    e h
  show ?thesis by simp
qed

text \<open>
  C9.  Each of the four operations fails with the \<open>ProtocolError\<close> of the response's
  status code exactly when that status code is not 200: so for 201 and 204 as well.
\<close>

theorem C9_only_200_succeeds:
  "(http_do w (speakers_request c) = Inr resp \<longrightarrow>
            (snd (listSpeakers w c) = Some (ProtocolError At_listSpeakers (StatusCode resp) None)
               \<longleftrightarrow> StatusCode resp \<noteq> 200) \<and>
            (snd (findSpeakerID w c name)
               = Inl (ProtocolError At_findSpeakerID (StatusCode resp) None)
               \<longleftrightarrow> StatusCode resp \<noteq> 200)) \<and>
         (new_request_err w (BaseURL c @ ''/audio_query'') = None \<and>
          http_do w (audio_query_request c tx sid) = Inr resp \<longrightarrow>
            (snd (createAudioQuery w c tx sid)
               = Inl (ProtocolError At_createAudioQuery (StatusCode resp) (Some (Body resp)))
               \<longleftrightarrow> StatusCode resp \<noteq> 200)) \<and>
         (query_encodable q \<and> http_do w (synthesis_request c q sid) = Inr resp \<longrightarrow>
            (snd (synthesis w c q sid)
               = Inl (ProtocolError At_synthesis (StatusCode resp) (Some (Body resp)))
               \<longleftrightarrow> StatusCode resp \<noteq> 200))"
proof -
  have "snd (listSpeakers w c) = Some (ProtocolError At_listSpeakers (StatusCode resp) None)
          \<longleftrightarrow> StatusCode resp \<noteq> 200"
    if "http_do w (speakers_request c) = Inr resp"
    using that by (simp add: listSpeakers_def Let_def split: sum.splits)
  moreover
  have "snd (findSpeakerID w c name) = Inl (ProtocolError At_findSpeakerID (StatusCode resp) None)
          \<longleftrightarrow> StatusCode resp \<noteq> 200"
    if "http_do w (speakers_request c) = Inr resp"
    using that by (simp add: findSpeakerID_def Let_def split: sum.splits option.splits prod.splits)
  moreover
  have "snd (createAudioQuery w c tx sid)
          = Inl (ProtocolError At_createAudioQuery (StatusCode resp) (Some (Body resp)))
          \<longleftrightarrow> StatusCode resp \<noteq> 200"
    if "new_request_err w (BaseURL c @ ''/audio_query'') = None"
      and "http_do w (audio_query_request c tx sid) = Inr resp"
    using that
    by (simp add: createAudioQuery_def Let_def audio_query_request_def split: sum.splits)
  moreover
  have "snd (synthesis w c q sid)
          = Inl (ProtocolError At_synthesis (StatusCode resp) (Some (Body resp)))
          \<longleftrightarrow> StatusCode resp \<noteq> 200"
    if "query_encodable q" and "http_do w (synthesis_request c q sid) = Inr resp"
    using that by (simp add: synthesis_def Let_def split: option.splits)
  ultimately show ?thesis by blast
qed

text \<open>An engine that answers with 204, and one that answers with 201.\<close>

theorem C9_only_200_succeeds_witness:
  "snd (listSpeakers (example_env 204 example_speakers example_query) (NewClient 50021))
     = Some (ProtocolError At_listSpeakers 204 None) \<and>
   snd (findSpeakerID (example_env 204 example_speakers example_query) (NewClient 50021) ''Alice'')
     = Inl (ProtocolError At_findSpeakerID 204 None) \<and>
   snd (createAudioQuery (example_env 201 example_speakers example_query) (NewClient 50021)
          ''hello'' 0)
     = Inl (ProtocolError At_createAudioQuery 201 (Some ''body'')) \<and>
   snd (synthesis (example_env 201 example_speakers example_query) (NewClient 50021)
          example_query 0)
     = Inl (ProtocolError At_synthesis 201 (Some ''body''))"
proof -
  let ?w = "example_env 204 example_speakers example_query"
  let ?v = "example_env 201 example_speakers example_query"
  let ?resp = "\<lparr>StatusCode = 204, Body = ''body'', BodyErr = None\<rparr>"
  let ?resq = "\<lparr>StatusCode = 201, Body = ''body'', BodyErr = None\<rparr>"
  have e: "query_encodable example_query"
    by (simp add: query_encodable_def example_query_def f64_defs)
  have h: "http_do ?w r = Inr ?resp" "http_do ?v r = Inr ?resq" "new_request_err ?v u = None"
    for r u
    by (simp_all add: example_env_def)
  from C9_only_200_succeeds [where w = ?w and c = "NewClient 50021" and resp = ?resp
      and name = "''Alice''" and tx = "''hello''" and sid = 0 and q = example_query] h
  have a: "snd (listSpeakers ?w (NewClient 50021)) = Some (ProtocolError At_listSpeakers 204 None)"
    and b: "snd (findSpeakerID ?w (NewClient 50021) ''Alice'')
              = Inl (ProtocolError At_findSpeakerID 204 None)"
    by simp_all
  from C9_only_200_succeeds [where w = ?v and c = "NewClient 50021" and resp = ?resq
      and name = "''Alice''" and tx = "''hello''" and sid = 0 and q = example_query] h e
  have c: "snd (createAudioQuery ?v (NewClient 50021) ''hello'' 0)
             = Inl (ProtocolError At_createAudioQuery 201 (Some ''body''))"
    and d: "snd (synthesis ?v (NewClient 50021) example_query 0)
             = Inl (ProtocolError At_synthesis 201 (Some ''body''))"
    by simp_all
  from a b c d show ?thesis by blast
qed

text \<open>
  C7.  When \<open>-list-actors\<close> is set, whatever the other flags are: the run sends the
  catalog request and no other request, reads no file, writes no file and prints no
  resolved speaker; an error it prints is the error of \<open>listSpeakers\<close>; and when the
  engine answers 200 with a catalog that decodes, the run is the catalog request, then
  the header, then for each entry in catalog order its name followed by the name and
  identifier of each of its styles in order, then the two closing lines, and the exit
  code is 0.
\<close>

theorem C7_list_actors:
  assumes "showActors (parse_flags args)"
  shows "Http (speakers_request (NewClient (port (parse_flags args)))) \<in> set (fst (main w args)) \<and>
         (\<forall>r. Http r \<in> set (fst (main w args)) \<longrightarrow>
                r = speakers_request (NewClient (port (parse_flags args)))) \<and>
         (\<forall>path. ReadFile path \<notin> set (fst (main w args))) \<and>
         (\<forall>path data. WriteFile path data \<notin> set (fst (main w args))) \<and>
         (\<forall>n s i. Stdout (MsgUsingSpeaker n s i) \<notin> set (fst (main w args))) \<and>
         (\<forall>err. Stderr (MsgError err) \<in> set (fst (main w args)) \<longrightarrow>
                snd (listSpeakers w (NewClient (port (parse_flags args)))) = Some err) \<and>
         (\<forall>resp speakers.
            http_do w (speakers_request (NewClient (port (parse_flags args)))) = Inr resp \<and>
            StatusCode resp = 200 \<and> decode_speakers w resp = Inr speakers \<longrightarrow>
            main w args =
              (Http (speakers_request (NewClient (port (parse_flags args))))
                 # Stdout MsgListHeader
                 # concat (map (\<lambda>sp. Stdout (MsgListSpeaker (Name sp))
                                  # map (\<lambda>st. Stdout (MsgListStyle (StyleName st) (StyleID st)))
                                      (Styles sp))
                           speakers)
                 @ [Stdout MsgListFooter, Stdout MsgListHint],
               0))"
proof -
  let ?c = "NewClient (port (parse_flags args))"
  let ?es = "fst (main w args)"
  note m = main_list_mode [OF assms, of w]
  have sub: "e \<in> set (fst (listSpeakers w ?c)) \<or>
             (\<exists>err. e = Stderr (MsgError err) \<and> snd (listSpeakers w ?c) = Some err)"
    if "e \<in> set ?es" for e
    using that m by (auto split: option.splits)
  have sup: "e \<in> set ?es" if "e \<in> set (fst (listSpeakers w ?c))" for e
    using that m by (auto split: option.splits)
  have c1: "Http (speakers_request ?c) \<in> set ?es"
    by (rule sup) (rule listSpeakers_request)
  have c2: "r = speakers_request ?c" if "Http r \<in> set ?es" for r
    using sub [OF that] listSpeakers_http [of r w ?c] by auto
  have c3: "ReadFile path \<notin> set ?es" for path
    using sub [of "ReadFile path"] listSpeakers_effects [of "ReadFile path" w ?c] by auto
  have c4: "WriteFile path data \<notin> set ?es" for path data
    using sub [of "WriteFile path data"] listSpeakers_effects [of "WriteFile path data" w ?c]
    by auto
  have c5: "Stdout (MsgUsingSpeaker n s i) \<notin> set ?es" for n s i
    using sub [of "Stdout (MsgUsingSpeaker n s i)"]
      listSpeakers_effects [of "Stdout (MsgUsingSpeaker n s i)" w ?c]
    by auto
  have c6: "snd (listSpeakers w ?c) = Some err" if "Stderr (MsgError err) \<in> set ?es" for err
    using sub [OF that] listSpeakers_effects [of "Stderr (MsgError err)" w ?c] by auto
  have c7: "main w args =
              (Http (speakers_request ?c) # Stdout MsgListHeader
                 # concat (map (\<lambda>sp. Stdout (MsgListSpeaker (Name sp))
                                  # map (\<lambda>st. Stdout (MsgListStyle (StyleName st) (StyleID st)))
                                      (Styles sp))
                           speakers)
                 @ [Stdout MsgListFooter, Stdout MsgListHint],
               0)"
    if "http_do w (speakers_request ?c) = Inr resp" and "StatusCode resp = 200"
      and "decode_speakers w resp = Inr speakers" for resp speakers
  proof -
    from that have "listSpeakers w ?c =
        (Http (speakers_request ?c) # Stdout MsgListHeader # print_speakers speakers
           @ [Stdout MsgListFooter, Stdout MsgListHint], None)"
      by (simp add: listSpeakers_def Let_def)
    with m show ?thesis by (simp add: print_speakers_concat)
  qed
  from c1 c2 c3 c4 c5 c6 c7 show ?thesis by blast
qed

text \<open>
  The run \<open>-list-actors\<close>, with neither \<open>-i\<close> nor \<open>-o\<close>, against a catalog of the one
  speaker \<open>Alice\<close> with the styles \<open>Normal\<close> (0) and \<open>Happy\<close> (1).
\<close>

theorem C7_list_actors_witness:
  "showActors (parse_flags (no_flags\<lparr>flag_list_actors := Some True\<rparr>)) \<and>
   inputFile (parse_flags (no_flags\<lparr>flag_list_actors := Some True\<rparr>)) = [] \<and>
   outputFile (parse_flags (no_flags\<lparr>flag_list_actors := Some True\<rparr>)) = [] \<and>
   main (example_env 200 (tl example_speakers) example_query)
        (no_flags\<lparr>flag_list_actors := Some True\<rparr>)
     = ([Http \<lparr>req_method = ''GET'', req_url = ''http://localhost:50021/speakers'',
               req_query = [], req_content_type = None, req_body = None\<rparr>,
         Stdout MsgListHeader,
         Stdout (MsgListSpeaker ''Alice''),
         Stdout (MsgListStyle ''Normal'' 0),
         Stdout (MsgListStyle ''Happy'' 1),
         Stdout MsgListFooter, Stdout MsgListHint],
        0)"
proof -
  let ?w = "example_env 200 (tl example_speakers) example_query"
  let ?a = "no_flags\<lparr>flag_list_actors := Some True\<rparr>"
  let ?resp = "\<lparr>StatusCode = 200, Body = ''body'', BodyErr = None\<rparr>"
  have h: "showActors (parse_flags ?a)" "inputFile (parse_flags ?a) = []"
    "outputFile (parse_flags ?a) = []"
    by (simp_all add: parse_flags_def no_flags_def)
  have p: "port (parse_flags ?a) = 50021"
    by (simp add: parse_flags_def no_flags_def)
  have e: "http_do ?w r = Inr ?resp" "decode_speakers ?w ?resp = Inr (tl example_speakers)" for r
    by (simp_all add: example_env_def)
  have s: "speakers_request (NewClient 50021)
             = \<lparr>req_method = ''GET'', req_url = ''http://localhost:50021/speakers'',
                req_query = [], req_content_type = None, req_body = None\<rparr>"
    by (simp add: speakers_request_def NewClient_def Itoa_def nat_digits.simps digits_def)
  have t: "tl example_speakers
             = [\<lparr>Name = ''Alice'', SpeakerUUID = ''u2'',
                 Styles = [\<lparr>StyleName = ''Normal'', StyleID = 0\<rparr>,
                           \<lparr>StyleName = ''Happy'', StyleID = 1\<rparr>],
                 Version = ''0.14''\<rparr>]"
    by (simp add: example_speakers_def)
  from C7_list_actors [OF h(1), of ?w]
  have "\<forall>resp speakers.
            http_do ?w (speakers_request (NewClient (port (parse_flags ?a)))) = Inr resp \<and>
            StatusCode resp = 200 \<and> decode_speakers ?w resp = Inr speakers \<longrightarrow>
            main ?w ?a =
              (Http (speakers_request (NewClient (port (parse_flags ?a))))
                 # Stdout MsgListHeader
                 # concat (map (\<lambda>sp. Stdout (MsgListSpeaker (Name sp))
                                  # map (\<lambda>st. Stdout (MsgListStyle (StyleName st) (StyleID st)))
                                      (Styles sp))
                           speakers)
                 @ [Stdout MsgListFooter, Stdout MsgListHint],
               0)"
    by (elim conjE)
  from this [rule_format, of ?resp "tl example_speakers"] e
  have "main ?w ?a =
      (Http (speakers_request (NewClient (port (parse_flags ?a))))
         # Stdout MsgListHeader
         # concat (map (\<lambda>sp. Stdout (MsgListSpeaker (Name sp))
                          # map (\<lambda>st. Stdout (MsgListStyle (StyleName st) (StyleID st)))
                              (Styles sp))
                   (tl example_speakers))
         @ [Stdout MsgListFooter, Stdout MsgListHint],
       0)"
    by simp
  then have "main ?w ?a =
      ([Http \<lparr>req_method = ''GET'', req_url = ''http://localhost:50021/speakers'',
               req_query = [], req_content_type = None, req_body = None\<rparr>,
         Stdout MsgListHeader,
         Stdout (MsgListSpeaker ''Alice''),
         Stdout (MsgListStyle ''Normal'' 0),
         Stdout (MsgListStyle ''Happy'' 1),
         Stdout MsgListFooter, Stdout MsgListHint],
        0)"
    unfolding p s t by simp
  with h show ?thesis by blast
qed

text \<open>
  C8.  When \<open>-list-actors\<close> is not set and the input path or the output path is empty,
  the whole run is the usage text on the error stream, and the exit code is 1: no
  request is sent and no file is written.
\<close>

theorem C8_usage:
  assumes "\<not> showActors (parse_flags args)"
    and "inputFile (parse_flags args) = [] \<or> outputFile (parse_flags args) = []"
  shows "main w args = ([Stderr (MsgUsage (prog args))], 1)"
  using assms by (auto simp: main_def Let_def)

text \<open>The run \<open>-o out.wav\<close>, without \<open>-i\<close>.\<close>

theorem C8_usage_witness:
  "\<not> showActors (parse_flags (no_flags\<lparr>flag_o := Some ''out.wav''\<rparr>)) \<and>
   inputFile (parse_flags (no_flags\<lparr>flag_o := Some ''out.wav''\<rparr>)) = [] \<and>
   outputFile (parse_flags (no_flags\<lparr>flag_o := Some ''out.wav''\<rparr>)) = ''out.wav'' \<and>
   main (example_env 200 example_speakers example_query) (no_flags\<lparr>flag_o := Some ''out.wav''\<rparr>)
     = ([Stderr (MsgUsage ''text2voicevox'')], 1)"
proof -
  let ?a = "no_flags\<lparr>flag_o := Some ''out.wav''\<rparr>"
  have h: "\<not> showActors (parse_flags ?a)" "inputFile (parse_flags ?a) = []"
    "outputFile (parse_flags ?a) = ''out.wav''"
    by (simp_all add: parse_flags_def no_flags_def)
  from h(2) have h2: "inputFile (parse_flags ?a) = [] \<or> outputFile (parse_flags ?a) = []" ..
  from C8_usage [OF h(1) h2, of "example_env 200 example_speakers example_query"] h
  show ?thesis by (simp add: no_flags_def)
qed

text \<open>
  C10.  When \<open>-actor\<close> is not given, the name that is resolved is the 15 bytes of the
  five characters of the default (line 190): the run is the run with \<open>-actor\<close> set to
  that string, and where the run resolves a speaker it starts with the effects of
  \<open>findSpeakerID\<close> for that string.
\<close>

theorem C10_default_actor:
  assumes "flag_actor args = None"
  shows "actorName (parse_flags args)
           = [CHR 0xE3, CHR 0x81, CHR 0x9A, CHR 0xE3, CHR 0x82, CHR 0x93, CHR 0xE3, CHR 0x81,
              CHR 0xA0, CHR 0xE3, CHR 0x82, CHR 0x82, CHR 0xE3, CHR 0x82, CHR 0x93] \<and>
         main w args
           = main w (args\<lparr>flag_actor :=
               Some [CHR 0xE3, CHR 0x81, CHR 0x9A, CHR 0xE3, CHR 0x82, CHR 0x93, CHR 0xE3,
                     CHR 0x81, CHR 0xA0, CHR 0xE3, CHR 0x82, CHR 0x82, CHR 0xE3, CHR 0x82,
                     CHR 0x93]\<rparr>) \<and>
         (\<not> showActors (parse_flags args) \<and> inputFile (parse_flags args) \<noteq> [] \<and>
          outputFile (parse_flags args) \<noteq> [] \<longrightarrow>
            (\<exists>rest. fst (main w args)
               = fst (findSpeakerID w (NewClient (port (parse_flags args)))
                        [CHR 0xE3, CHR 0x81, CHR 0x9A, CHR 0xE3, CHR 0x82, CHR 0x93, CHR 0xE3,
                         CHR 0x81, CHR 0xA0, CHR 0xE3, CHR 0x82, CHR 0x82, CHR 0xE3, CHR 0x82,
                         CHR 0x93]) @ rest))"
proof -
  let ?n = "[CHR 0xE3, CHR 0x81, CHR 0x9A, CHR 0xE3, CHR 0x82, CHR 0x93, CHR 0xE3, CHR 0x81,
             CHR 0xA0, CHR 0xE3, CHR 0x82, CHR 0x82, CHR 0xE3, CHR 0x82, CHR 0x93]"
  from assms have a: "actorName (parse_flags args) = ?n"
    by (simp add: parse_flags_def default_actor_def)
  from assms have "parse_flags (args\<lparr>flag_actor := Some ?n\<rparr>) = parse_flags args"
    by (simp add: parse_flags_def default_actor_def)
  then have b: "main w args = main w (args\<lparr>flag_actor := Some ?n\<rparr>)"
    by (simp add: main_def Let_def cong del: if_weak_cong)
  have c: "\<exists>rest. fst (main w args)
             = fst (findSpeakerID w (NewClient (port (parse_flags args))) ?n) @ rest"
    if "\<not> showActors (parse_flags args)" "inputFile (parse_flags args) \<noteq> []"
      "outputFile (parse_flags args) \<noteq> []"
    using that a
    by (cases "findSpeakerID w (NewClient (port (parse_flags args))) ?n")
       (auto simp: main_def Let_def split: sum.splits prod.splits)
  from a b c show ?thesis by blast
qed

text \<open>
  The run \<open>-i in.txt -o out.wav\<close>: the speaker it reports is the catalog entry of the
  default name, with its first style \<open>Normal\<close> (3).
\<close>

theorem C10_default_actor_witness:
  "flag_actor io_flags = None \<and>
   actorName (parse_flags io_flags)
     = [CHR 0xE3, CHR 0x81, CHR 0x9A, CHR 0xE3, CHR 0x82, CHR 0x93, CHR 0xE3, CHR 0x81,
        CHR 0xA0, CHR 0xE3, CHR 0x82, CHR 0x82, CHR 0xE3, CHR 0x82, CHR 0x93] \<and>
   hd (tl (fst (main (example_env 200 example_speakers example_query) io_flags)))
     = Stdout (MsgUsingSpeaker
                 [CHR 0xE3, CHR 0x81, CHR 0x9A, CHR 0xE3, CHR 0x82, CHR 0x93, CHR 0xE3, CHR 0x81,
                  CHR 0xA0, CHR 0xE3, CHR 0x82, CHR 0x82, CHR 0xE3, CHR 0x82, CHR 0x93]
                 ''Normal'' 3)"
proof -
  let ?w = "example_env 200 example_speakers example_query"
  let ?n = "[CHR 0xE3, CHR 0x81, CHR 0x9A, CHR 0xE3, CHR 0x82, CHR 0x93, CHR 0xE3, CHR 0x81,
             CHR 0xA0, CHR 0xE3, CHR 0x82, CHR 0x82, CHR 0xE3, CHR 0x82, CHR 0x93]"
  have h: "flag_actor io_flags = None" by (simp add: io_flags_def no_flags_def)
  have g: "\<not> showActors (parse_flags io_flags)" "inputFile (parse_flags io_flags) \<noteq> []"
    "outputFile (parse_flags io_flags) \<noteq> []" "port (parse_flags io_flags) = 50021"
    by (simp_all add: parse_flags_def io_flags_def no_flags_def)
  have f: "fst (findSpeakerID ?w (NewClient 50021) ?n)
             = [Http (speakers_request (NewClient 50021)),
                Stdout (MsgUsingSpeaker ?n ''Normal'' 3)]"
    by (simp add: findSpeakerID_def example_env_def example_speakers_def default_actor_def Let_def)
  note d = C10_default_actor [OF h, of ?w]
  from d have a: "actorName (parse_flags io_flags) = ?n"
    by (elim conjE)
  from d have "\<not> showActors (parse_flags io_flags) \<and> inputFile (parse_flags io_flags) \<noteq> [] \<and>
          outputFile (parse_flags io_flags) \<noteq> [] \<longrightarrow>
            (\<exists>rest. fst (main ?w io_flags)
               = fst (findSpeakerID ?w (NewClient (port (parse_flags io_flags))) ?n) @ rest)"
    by (elim conjE)
  with g obtain rest where
    r: "fst (main ?w io_flags) = fst (findSpeakerID ?w (NewClient 50021) ?n) @ rest"
    by auto
  from r f have "hd (tl (fst (main ?w io_flags))) = Stdout (MsgUsingSpeaker ?n ''Normal'' 3)"
    by simp
  with h a show ?thesis by blast
qed

end
